theory Spec2Isabelle
  imports Main "HOL-Library.Word"
begin

unbundle bit_operations_syntax

section \<open>The vc4 instruction encoder of V3DLib (Lib/vc4/Instr.cpp)\<close>

text \<open>
  The development embeds the functions of \<^verbatim>\<open>Lib/vc4/Instr.cpp\<close>:
  \<^verbatim>\<open>encodeDestReg\<close>, \<^verbatim>\<open>encodeSrcReg\<close>, \<^verbatim>\<open>Instr::tag\<close>,
  \<^verbatim>\<open>Instr::encode_operands\<close>, \<^verbatim>\<open>Instr::high\<close>, \<^verbatim>\<open>Instr::low\<close> and
  \<^verbatim>\<open>Instr::encode\<close>.

  Conventions.
  \<^item> \<^verbatim>\<open>uint32_t\<close> is \<open>32 word\<close>; C \<^verbatim>\<open>int\<close> values (register ids, immediate values,
    branch offsets) are \<open>int\<close>, and a conversion to \<^verbatim>\<open>uint32_t\<close> is \<open>word_of_int\<close>.
  \<^item> A failing \<^verbatim>\<open>assert\<close>, a failing \<^verbatim>\<open>assertq\<close> and a call of \<^verbatim>\<open>fatal\<close> end the
    encoding; they are the \<open>Inl\<close> results of the model (assertions are taken as compiled in).
  \<^item> An out-parameter is returned as the second component of the result.
  \<^item> A method that mutates the \<^verbatim>\<open>vc4::Instr\<close> object takes the record and returns it updated.
\<close>

type_synonym u32 = "32 word"

datatype error = AssertFailed | AssertqFailed string | Fatal string

subsection \<open>Registers and operands\<close>

text \<open>
  Modelled from the spec: \<^verbatim>\<open>Reg\<close>, \<^verbatim>\<open>RegTag\<close>, \<^verbatim>\<open>RegOrImm\<close> and the operand's immediate
  (headers under \<^verbatim>\<open>Lib/Target/instr\<close> that are not part of the sources at hand).
  A register is a tag and an index, \<open>{tag \<in> {BankA, BankB, Accumulator, Special, None}, index}\<close>;
  an operand is a register or an immediate, exactly one of the two. The names are those
  \<^verbatim>\<open>Instr.cpp\<close> uses: \<^verbatim>\<open>reg.tag\<close>, \<^verbatim>\<open>reg.regId\<close>, \<^verbatim>\<open>Reg(ACC,4)\<close>, \<^verbatim>\<open>is_reg()\<close>,
  \<^verbatim>\<open>is_imm()\<close>, \<^verbatim>\<open>imm().val\<close>; the accessors \<^verbatim>\<open>reg()\<close> and \<^verbatim>\<open>imm()\<close> are the
  arguments of the constructors \<open>RegR\<close> and \<open>ImmR\<close>, read by pattern matching.
\<close>

datatype RegTag = REG_A | REG_B | ACC | SPECIAL | NONE

datatype Reg = Reg (tag: RegTag) (regId: int)

datatype SmallImm = SmallImm (val: int)

datatype RegOrImm = is_reg: RegR Reg | is_imm: ImmR SmallImm

text \<open>The enumerators of the special registers that \<^verbatim>\<open>Instr.cpp\<close> names.\<close>

datatype Special =
    SPECIAL_UNIFORM | SPECIAL_ELEM_NUM | SPECIAL_QPU_NUM | SPECIAL_VPM_READ
  | SPECIAL_DMA_LD_WAIT | SPECIAL_DMA_ST_WAIT
  | SPECIAL_RD_SETUP | SPECIAL_WR_SETUP | SPECIAL_DMA_LD_ADDR | SPECIAL_DMA_ST_ADDR
  | SPECIAL_VPM_WRITE | SPECIAL_HOST_INT | SPECIAL_TMU0_S
  | SPECIAL_SFU_RECIP | SPECIAL_SFU_RECIPSQRT | SPECIAL_SFU_EXP | SPECIAL_SFU_LOG

text \<open>
  What \<^verbatim>\<open>Instr.cpp\<close> takes from declarations outside the sources at hand is a parameter
  of the model, so that every theorem holds whatever these declarations are:
  \<^item> \<open>special_id\<close>: the integer value of each enumerator \<^verbatim>\<open>SPECIAL_...\<close>, which
    \<^verbatim>\<open>reg.regId\<close> is compared with;
  \<^item> \<open>regfile\<close>: the method \<^verbatim>\<open>Reg::regfile()\<close>;
  \<^item> \<open>M_V8MIN_mulOp\<close>: the value of \<^verbatim>\<open>ALUOp(ALUOp::M_V8MIN).vc4_encodeMulOp()\<close>.
\<close>

record decls =
  special_id :: "Special \<Rightarrow> int"
  regfile :: "Reg \<Rightarrow> RegTag"
  M_V8MIN_mulOp :: u32

subsection \<open>encodeDestReg\<close>

text \<open>
  The result is (return value, \<^verbatim>\<open>*file\<close>). The inner \<^verbatim>\<open>switch\<close> on \<^verbatim>\<open>reg.regId\<close> is the
  chain of comparisons in the order of its labels. Its \<^verbatim>\<open>default: break;\<close> leaves the inner
  \<^verbatim>\<open>switch\<close> only, and no \<^verbatim>\<open>break\<close> stands between the inner \<^verbatim>\<open>switch\<close> and
  \<^verbatim>\<open>case NONE:\<close>, so control continues with the statements of \<^verbatim>\<open>case NONE\<close>. The outer
  \<^verbatim>\<open>default:\<close> (the call of \<^verbatim>\<open>fatal\<close>) is not reached by any of the five tags.
\<close>

definition encodeDestReg :: "decls \<Rightarrow> Reg \<Rightarrow> error + (u32 \<times> RegTag)" where
  "encodeDestReg H reg =
    (let AorB = (if tag reg = REG_A \<or> tag reg = REG_B then tag reg else REG_A) in
     case tag reg of
       REG_A \<Rightarrow>
         if 0 \<le> regId reg \<and> regId reg < 32 then Inr (word_of_int (regId reg), REG_A)
         else Inl AssertFailed
     | REG_B \<Rightarrow>
         if 0 \<le> regId reg \<and> regId reg < 32 then Inr (word_of_int (regId reg), REG_B)
         else Inl AssertFailed
     | ACC \<Rightarrow>
         if 0 \<le> regId reg \<and> regId reg \<le> 5
         then Inr (word_of_int (32 + regId reg), if regId reg = 5 then REG_B else AorB)
         else Inl AssertFailed
     | SPECIAL \<Rightarrow>
         if regId reg = special_id H SPECIAL_RD_SETUP then Inr (49, REG_A)
         else if regId reg = special_id H SPECIAL_WR_SETUP then Inr (49, REG_B)
         else if regId reg = special_id H SPECIAL_DMA_LD_ADDR then Inr (50, REG_A)
         else if regId reg = special_id H SPECIAL_DMA_ST_ADDR then Inr (50, REG_B)
         else if regId reg = special_id H SPECIAL_VPM_WRITE then Inr (48, AorB)
         else if regId reg = special_id H SPECIAL_HOST_INT then Inr (38, AorB)
         else if regId reg = special_id H SPECIAL_TMU0_S then Inr (56, AorB)
         else if regId reg = special_id H SPECIAL_SFU_RECIP then Inr (52, AorB)
         else if regId reg = special_id H SPECIAL_SFU_RECIPSQRT then Inr (53, AorB)
         else if regId reg = special_id H SPECIAL_SFU_EXP then Inr (54, AorB)
         else if regId reg = special_id H SPECIAL_SFU_LOG then Inr (55, AorB)
         else Inr (39, AorB)
     | NONE \<Rightarrow> Inr (39, AorB))"

subsection \<open>encodeSrcReg\<close>

text \<open>
  The result is (return value, \<^verbatim>\<open>*mux\<close>). \<^verbatim>\<open>case SPECIAL\<close> is the last case before
  \<^verbatim>\<open>default:\<close> and its inner \<^verbatim>\<open>switch\<close> has no default, so an id that is none of the
  six labels reaches the call of \<^verbatim>\<open>fatal\<close>.
\<close>

definition encodeSrcReg :: "decls \<Rightarrow> Reg \<Rightarrow> RegTag \<Rightarrow> error + (u32 \<times> u32)" where
  "encodeSrcReg H reg file =
    (if \<not> (file = REG_A \<or> file = REG_B) then Inl AssertFailed
     else
       let NO_REGFILE_INDEX = (0 :: u32);
           AorB = (if file = REG_A then 6 else 7 :: u32) in
       case tag reg of
         REG_A \<Rightarrow>
           if 0 \<le> regId reg \<and> regId reg < 32 \<and> file = REG_A
           then Inr (word_of_int (regId reg), 6)
           else Inl AssertFailed
       | REG_B \<Rightarrow>
           if 0 \<le> regId reg \<and> regId reg < 32 \<and> file = REG_B
           then Inr (word_of_int (regId reg), 7)
           else Inl AssertFailed
       | ACC \<Rightarrow>
           if 0 \<le> regId reg \<and> regId reg \<le> 4
           then Inr (NO_REGFILE_INDEX, word_of_int (regId reg))
           else Inl AssertFailed
       | NONE \<Rightarrow> Inr (39, AorB)
       | SPECIAL \<Rightarrow>
           if regId reg = special_id H SPECIAL_UNIFORM then Inr (32, AorB)
           else if regId reg = special_id H SPECIAL_ELEM_NUM
             then (if file = REG_A then Inr (38, 6) else Inl AssertFailed)
           else if regId reg = special_id H SPECIAL_QPU_NUM
             then (if file = REG_B then Inr (38, 7) else Inl AssertFailed)
           else if regId reg = special_id H SPECIAL_VPM_READ then Inr (48, AorB)
           else if regId reg = special_id H SPECIAL_DMA_LD_WAIT
             then (if file = REG_A then Inr (50, 6) else Inl AssertFailed)
           else if regId reg = special_id H SPECIAL_DMA_ST_WAIT
             then (if file = REG_B then Inr (50, 7) else Inl AssertFailed)
           else Inl (Fatal ''V3DLib: missing case in encodeSrcReg''))"

subsection \<open>The physical instruction record and Instr::tag\<close>

text \<open>
  The class \<^verbatim>\<open>vc4::Instr\<close>: the fields that \<^verbatim>\<open>Instr.cpp\<close> reads and writes. The setters
  \<^verbatim>\<open>ws(b)\<close>, \<^verbatim>\<open>sf(b)\<close> and \<^verbatim>\<open>rel(b)\<close> store into \<^verbatim>\<open>m_ws\<close>, \<^verbatim>\<open>m_sf\<close> and \<^verbatim>\<open>m_rel\<close>, the
  fields \<^verbatim>\<open>high()\<close> reads.
\<close>

datatype Tag = NOP | ROT | ALU | LI | BR | END | LDTMU | SINC | SDEC

record Instr =
  m_tag :: Tag
  m_sig :: u32
  m_sem_flag :: u32
  waddr_add :: u32
  waddr_mul :: u32
  cond_add :: u32
  cond_mul :: u32
  m_sf :: bool
  m_ws :: bool
  m_rel :: bool
  m_raddra :: u32
  m_raddrb :: u32
  m_muxa :: u32
  m_muxb :: u32
  mulOp :: u32
  addOp :: u32
  li_imm :: u32
  sema_id :: u32

definition Instr_tag :: "Tag \<Rightarrow> bool \<Rightarrow> Instr \<Rightarrow> Instr" where
  "Instr_tag in_tag imm s =
    (let s = s\<lparr>m_tag := in_tag\<rparr> in
     case in_tag of
       NOP \<Rightarrow> s
     | LI \<Rightarrow> s
     | ROT \<Rightarrow> s\<lparr>m_sig := 13\<rparr>
     | ALU \<Rightarrow> s\<lparr>m_sig := (if imm then 13 else 1)\<rparr>
     | BR \<Rightarrow> s\<lparr>m_sig := 15\<rparr>
     | END \<Rightarrow> s\<lparr>m_sig := 3, m_raddrb := 39\<rparr>
     | LDTMU \<Rightarrow> s\<lparr>m_sig := 10, m_raddrb := 39\<rparr>
     | SINC \<Rightarrow> s\<lparr>m_sig := 0xe, m_sem_flag := 8\<rparr>
     | SDEC \<Rightarrow> s\<lparr>m_sig := 0xe, m_sem_flag := 8\<rparr>)"

subsection \<open>Instr::encode_operands\<close>

text \<open>
  The four cases of the operand pair in the order of the source: two registers, two
  immediates, an immediate second, an immediate first. The two \<^verbatim>\<open>assert(false)\<close> branches
  are not reached by an operand that is a register or an immediate. The local
  \<^verbatim>\<open>raddra\<close> starts at 0 and keeps it when both operands are immediates.
\<close>

fun encode_operands :: "decls \<Rightarrow> RegOrImm \<Rightarrow> RegOrImm \<Rightarrow> Instr \<Rightarrow> error + Instr" where
  "encode_operands H (RegR a) (RegR b) s =
    (let aFile = regfile H a; aTag = tag a; bFile = regfile H b in
     if aTag \<noteq> NONE \<and> a = b then
       (if aFile = REG_A then
          (case encodeSrcReg H a REG_A of
             Inl e \<Rightarrow> Inl e
           | Inr (raddra, muxa) \<Rightarrow>
               Inr (s\<lparr>m_raddra := raddra, m_raddrb := 39, m_muxa := muxa, m_muxb := muxa\<rparr>))
        else
          (case encodeSrcReg H a REG_B of
             Inl e \<Rightarrow> Inl e
           | Inr (raddrb, muxa) \<Rightarrow>
               Inr (s\<lparr>m_raddra := 39, m_raddrb := raddrb, m_muxa := muxa, m_muxb := muxa\<rparr>)))
     else if \<not> (aFile = NONE \<or> bFile = NONE \<or> aFile \<noteq> bFile) then Inl AssertFailed
     else if aFile = REG_A \<or> bFile = REG_B then
       (case encodeSrcReg H a REG_A of
          Inl e \<Rightarrow> Inl e
        | Inr (raddra, muxa) \<Rightarrow>
            (case encodeSrcReg H b REG_B of
               Inl e \<Rightarrow> Inl e
             | Inr (raddrb, muxb) \<Rightarrow>
                 Inr (s\<lparr>m_raddra := raddra, m_raddrb := raddrb, m_muxa := muxa, m_muxb := muxb\<rparr>)))
     else
       (case encodeSrcReg H b REG_A of
          Inl e \<Rightarrow> Inl e
        | Inr (raddra, muxb) \<Rightarrow>
            (case encodeSrcReg H a REG_B of
               Inl e \<Rightarrow> Inl e
             | Inr (raddrb, muxa) \<Rightarrow>
                 Inr (s\<lparr>m_raddra := raddra, m_raddrb := raddrb, m_muxa := muxa, m_muxb := muxb\<rparr>))))"
| "encode_operands H (ImmR x) (ImmR y) s =
    (if val x \<noteq> val y
     then Inl (AssertqFailed ''srcA and srcB can not both be immediates with different values'')
     else Inr (s\<lparr>m_raddra := 0, m_raddrb := word_of_int (val x), m_muxa := 7, m_muxb := 7\<rparr>))"
| "encode_operands H (RegR a) (ImmR y) s =
    (case encodeSrcReg H a REG_A of
       Inl e \<Rightarrow> Inl e
     | Inr (raddra, muxa) \<Rightarrow>
         Inr (s\<lparr>m_raddra := raddra, m_raddrb := word_of_int (val y), m_muxa := muxa, m_muxb := 7\<rparr>))"
| "encode_operands H (ImmR x) (RegR b) s =
    (case encodeSrcReg H b REG_A of
       Inl e \<Rightarrow> Inl e
     | Inr (raddra, muxb) \<Rightarrow>
         Inr (s\<lparr>m_raddra := raddra, m_raddrb := word_of_int (val x), m_muxa := 7, m_muxb := muxb\<rparr>))"

subsection \<open>Instr::high and Instr::low\<close>

definition high :: "Instr \<Rightarrow> u32" where
  "high s =
    (let ret = push_bit 28 (m_sig s) OR push_bit 24 (m_sem_flag s)
               OR push_bit 6 (waddr_add s) OR waddr_mul s in
     if m_tag s = BR then
       ret OR push_bit 20 (cond_add s) OR (if m_rel s then push_bit 19 1 else 0)
     else if m_tag s \<noteq> END \<and> m_tag s \<noteq> LDTMU then
       ret OR push_bit 17 (cond_add s) OR push_bit 14 (cond_mul s)
           OR (if m_sf s then push_bit 13 1 else 0)
           OR (if m_ws s then push_bit 12 1 else 0)
     else ret)"

definition low :: "Instr \<Rightarrow> u32" where
  "low s =
    (case m_tag s of
       NOP \<Rightarrow> 0
     | ROT \<Rightarrow> push_bit 29 (mulOp s) OR push_bit 18 (m_raddra s) OR push_bit 12 (m_raddrb s)
     | ALU \<Rightarrow> push_bit 29 (mulOp s) OR push_bit 24 (addOp s)
              OR push_bit 18 (m_raddra s) OR push_bit 12 (m_raddrb s)
              OR push_bit 9 (m_muxa s) OR push_bit 6 (m_muxb s)
              OR push_bit 3 (m_muxa s) OR m_muxb s
     | END \<Rightarrow> push_bit 18 (m_raddra s) OR push_bit 12 (m_raddrb s)
     | LDTMU \<Rightarrow> push_bit 18 (m_raddra s) OR push_bit 12 (m_raddrb s)
     | LI \<Rightarrow> li_imm s
     | BR \<Rightarrow> li_imm s
     | SINC \<Rightarrow> sema_id s
     | SDEC \<Rightarrow> push_bit 4 1 OR sema_id s)"

subsection \<open>The machine-independent instruction\<close>

text \<open>
  Modelled from the spec: the input \<^verbatim>\<open>V3DLib::Instr\<close>, whose declaration is not part of the
  sources at hand: the variants No-op, Load-Immediate, Branch, ALU, End, Receive,
  Semaphore-Increment and Semaphore-Decrement, one constructor for each \<^verbatim>\<open>InstrTag\<close> that
  \<^verbatim>\<open>Instr::encode\<close> lists and \<open>InstrTag_other\<close> for any tag it does not list. What
  \<^verbatim>\<open>encode\<close> obtains from the instruction through accessors defined elsewhere is a field
  holding the value the accessor returns:
  \<^item> \<open>isMul\<close>, \<open>isRot\<close>, \<open>vc4_encodeMulOp\<close>, \<open>vc4_encodeAddOp\<close> of the ALU operation;
  \<^item> \<^verbatim>\<open>assign_cond().encode()\<close>, \<^verbatim>\<open>branch_cond().encode()\<close> and \<^verbatim>\<open>li.imm.encode()\<close> as
    \<open>u32\<close>, \<^verbatim>\<open>set_cond().flags_set()\<close> as \<open>bool\<close>;
  \<^item> \<^verbatim>\<open>branch_target()\<close> with its fields \<open>relative\<close>, \<open>useRegOffset\<close>, \<open>immOffset\<close>.
\<close>

record ALUOp =
  isMul :: bool
  isRot :: bool
  vc4_encodeMulOp :: u32
  vc4_encodeAddOp :: u32

record BranchTarget =
  relative :: bool
  useRegOffset :: bool
  immOffset :: int

datatype Target_Instr =
    InstrTag_NO_OP
  | InstrTag_LI Reg u32 u32 bool
      \<comment> \<open>dest, imm.encode(), assign_cond().encode(), set_cond().flags_set()\<close>
  | InstrTag_BR u32 BranchTarget
      \<comment> \<open>branch_cond().encode(), branch_target()\<close>
  | InstrTag_ALU ALUOp Reg RegOrImm RegOrImm u32 bool
      \<comment> \<open>op, dest, srcA, srcB, assign_cond().encode(), set_cond().flags_set()\<close>
  | InstrTag_END
  | InstrTag_RECV Reg
  | InstrTag_SINC int
  | InstrTag_SDEC int
  | InstrTag_other

text \<open>
  Modelled from the spec: \<^verbatim>\<open>V3DLib::Instr::hasImm()\<close>, defined outside the sources at hand:
  an ALU instruction "carries a small immediate" when one of its sources is an immediate.
\<close>

definition hasImm :: "RegOrImm \<Rightarrow> RegOrImm \<Rightarrow> bool" where
  "hasImm srcA srcB = (is_imm srcA \<or> is_imm srcB)"

subsection \<open>Instr::encode\<close>

text \<open>
  The rotate branch of \<^verbatim>\<open>case InstrTag::ALU\<close>. Its third assertion is
  \<^verbatim>\<open>assert(n >= 1 || n <= 15)\<close> on the \<^verbatim>\<open>uint32_t n\<close>: a disjunction, as the source has it.
\<close>

definition encode_rot :: "decls \<Rightarrow> RegOrImm \<Rightarrow> RegOrImm \<Rightarrow> Instr \<Rightarrow> error + Instr" where
  "encode_rot H srcA srcB s =
    (case srcA of
       ImmR x \<Rightarrow> Inl AssertFailed
     | RegR a \<Rightarrow>
         if \<not> (tag a = ACC \<and> regId a = 0) then Inl AssertFailed
         else
           (case srcB of
              RegR b \<Rightarrow>
                if tag b = ACC \<and> regId b = 5
                then Inr ((Instr_tag ROT False s)\<lparr>mulOp := M_V8MIN_mulOp H, m_raddrb := 48\<rparr>)
                else Inl AssertFailed
            | ImmR y \<Rightarrow>
                let n = (word_of_int (val y) :: u32) in
                if 1 \<le> n \<or> n \<le> 15
                then Inr ((Instr_tag ROT False s)\<lparr>mulOp := M_V8MIN_mulOp H, m_raddrb := 48 + n\<rparr>)
                else Inl AssertFailed))"

definition encode :: "decls \<Rightarrow> Target_Instr \<Rightarrow> Instr \<Rightarrow> error + Instr" where
  "encode H instr s =
    (case instr of
       InstrTag_NO_OP \<Rightarrow> Inr s
     | InstrTag_LI dest imm_enc cond flags \<Rightarrow>
         (case encodeDestReg H dest of
            Inl e \<Rightarrow> Inl e
          | Inr (w, file) \<Rightarrow>
              Inr ((Instr_tag LI False s)\<lparr>cond_add := cond, waddr_add := w,
                     m_ws := (file \<noteq> REG_A), li_imm := imm_enc, m_sf := flags\<rparr>))
     | InstrTag_BR cond target \<Rightarrow>
         if useRegOffset target then Inl (AssertqFailed ''Register offset not supported'')
         else Inr ((Instr_tag BR False s)\<lparr>cond_add := cond, m_rel := relative target,
                     li_imm := word_of_int (8 * immOffset target)\<rparr>)
     | InstrTag_ALU op dest srcA srcB cond flags \<Rightarrow>
         (case encodeDestReg H dest of
            Inl e \<Rightarrow> Inl e
          | Inr (d, file) \<Rightarrow>
              let s1 = (if isMul op
                        then s\<lparr>cond_mul := cond, waddr_mul := d, m_ws := (file \<noteq> REG_B)\<rparr>
                        else s\<lparr>cond_add := cond, waddr_add := d, m_ws := (file \<noteq> REG_A)\<rparr>);
                  s2 = s1\<lparr>m_sf := flags\<rparr> in
              if isRot op then encode_rot H srcA srcB s2
              else
                encode_operands H srcA srcB
                  ((Instr_tag ALU (hasImm srcA srcB) s2)
                     \<lparr>mulOp := (if isMul op then vc4_encodeMulOp op else 0),
                      addOp := (if isMul op then 0 else vc4_encodeAddOp op)\<rparr>))
     | InstrTag_END \<Rightarrow> Inr (Instr_tag END False s)
     | InstrTag_RECV dest \<Rightarrow>
         if dest = Reg ACC 4 then Inr (Instr_tag LDTMU False s) else Inl AssertFailed
     | InstrTag_SINC semaId \<Rightarrow> Inr ((Instr_tag SINC False s)\<lparr>sema_id := word_of_int semaId\<rparr>)
     | InstrTag_SDEC semaId \<Rightarrow> Inr ((Instr_tag SDEC False s)\<lparr>sema_id := word_of_int semaId\<rparr>)
     | InstrTag_other \<Rightarrow>
         Inl (AssertqFailed ''vc4::Instr::encode(): Target lang instruction tag not handled''))"

subsection \<open>An instance of the absent declarations\<close>

text \<open>
  Concrete values for the parameters, to run the model on concrete inputs. The enumerators
  are numbered one after the other, as an enumeration without initialisers is. The register
  file of a register follows the data model of the spec: a register of bank A or B lives
  in that bank, a special register that the source mapping reads through one bank only
  lives in that bank, and accumulators, the other special registers and \<open>NONE\<close> have no
  fixed bank.
\<close>

fun Special_enum :: "Special \<Rightarrow> int" where
  "Special_enum SPECIAL_UNIFORM = 0"
| "Special_enum SPECIAL_ELEM_NUM = 1"
| "Special_enum SPECIAL_QPU_NUM = 2"
| "Special_enum SPECIAL_VPM_READ = 3"
| "Special_enum SPECIAL_DMA_LD_WAIT = 4"
| "Special_enum SPECIAL_DMA_ST_WAIT = 5"
| "Special_enum SPECIAL_RD_SETUP = 6"
| "Special_enum SPECIAL_WR_SETUP = 7"
| "Special_enum SPECIAL_DMA_LD_ADDR = 8"
| "Special_enum SPECIAL_DMA_ST_ADDR = 9"
| "Special_enum SPECIAL_VPM_WRITE = 10"
| "Special_enum SPECIAL_HOST_INT = 11"
| "Special_enum SPECIAL_TMU0_S = 12"
| "Special_enum SPECIAL_SFU_RECIP = 13"
| "Special_enum SPECIAL_SFU_RECIPSQRT = 14"
| "Special_enum SPECIAL_SFU_EXP = 15"
| "Special_enum SPECIAL_SFU_LOG = 16"

definition bank_of :: "Reg \<Rightarrow> RegTag" where
  "bank_of r =
    (case tag r of
       REG_A \<Rightarrow> REG_A
     | REG_B \<Rightarrow> REG_B
     | SPECIAL \<Rightarrow>
         if regId r = Special_enum SPECIAL_ELEM_NUM \<or> regId r = Special_enum SPECIAL_DMA_LD_WAIT
         then REG_A
         else if regId r = Special_enum SPECIAL_QPU_NUM \<or> regId r = Special_enum SPECIAL_DMA_ST_WAIT
         then REG_B
         else NONE
     | ACC \<Rightarrow> NONE
     | NONE \<Rightarrow> NONE)"

definition H0 :: decls where
  "H0 = \<lparr>special_id = Special_enum, regfile = bank_of, M_V8MIN_mulOp = 4\<rparr>"

text \<open>A record to start a concrete encoding from: every field zero, the tag \<open>NOP\<close>.\<close>

definition s0 :: Instr where
  "s0 = \<lparr>m_tag = NOP, m_sig = 0, m_sem_flag = 0, waddr_add = 0, waddr_mul = 0,
         cond_add = 0, cond_mul = 0, m_sf = False, m_ws = False, m_rel = False,
         m_raddra = 0, m_raddrb = 0, m_muxa = 0, m_muxb = 0, mulOp = 0, addOp = 0,
         li_imm = 0, sema_id = 0\<rparr>"

text \<open>An add-class operation that is no rotate, for concrete ALU instructions.\<close>

definition A_ADD :: ALUOp where
  "A_ADD = \<lparr>isMul = False, isRot = False, vc4_encodeMulOp = 0, vc4_encodeAddOp = 12\<rparr>"

text \<open>The rotate operation, for concrete rotate instructions.\<close>

definition M_ROTATE :: ALUOp where
  "M_ROTATE = \<lparr>isMul = True, isRot = True, vc4_encodeMulOp = 4, vc4_encodeAddOp = 0\<rparr>"

text \<open>
  The four fields that \<^verbatim>\<open>encode_operands\<close> assigns, in the order read address A, read
  address B, mux A, mux B. For a result \<open>x\<close> of the encoder, \<open>map_sum id operands x = Inr v\<close>
  says that the encoding succeeded and left \<open>v\<close> in these fields.
\<close>

definition operands :: "Instr \<Rightarrow> u32 \<times> u32 \<times> u32 \<times> u32" where
  "operands s = (m_raddra s, m_raddrb s, m_muxa s, m_muxb s)"

section \<open>Auxiliary facts\<close>

lemma inj_Special_enum: "inj Special_enum"
proof (rule injI)
  fix x y assume "Special_enum x = Special_enum y"
  then show "x = y" by (cases x; cases y; simp)
qed

lemma uint_word_of_int_u32:
  assumes "0 \<le> k" "k < 2 ^ 32"
  shows "uint (word_of_int k :: u32) = k"
proof -
  have "uint (word_of_int k :: u32) = take_bit 32 k"
    by (simp add: uint_word_of_int_eq)
  also have "\<dots> = k" using assms by (simp add: take_bit_int_eq_self)
  finally show ?thesis .
qed

lemma sint_word_of_int_u32:
  assumes "- (2 ^ 31) \<le> k" "k < 2 ^ 31"
  shows "sint (word_of_int k :: u32) = k"
proof -
  have "sint (word_of_int k :: u32) = signed_take_bit 31 k"
    by (simp add: sint_sbintrunc')
  also have "\<dots> = k" using assms by (simp add: signed_take_bit_int_eq_self)
  finally show ?thesis .
qed

text \<open>The condition of \<^verbatim>\<open>assert(n >= 1 || n <= 15)\<close> holds for every \<^verbatim>\<open>uint32_t n\<close>.\<close>

lemma rot_assert_holds: "1 \<le> n \<or> n \<le> (15 :: u32)"
  by (cases "n = 0") (simp_all add: word_le_nat_alt, unat_arith)

text \<open>
  A non-rotate ALU instruction whose destination resolves: \<^verbatim>\<open>encode\<close> sets the write
  fields, the class, the opcodes, and hands the two sources to \<^verbatim>\<open>encode_operands\<close>.
\<close>

lemma encode_ALU_plain:
  assumes "\<not> isRot op" "encodeDestReg H dest = Inr (d, f)"
  shows "encode H (InstrTag_ALU op dest a b c fl) s =
         encode_operands H a b
           ((Instr_tag ALU (hasImm a b)
              ((if isMul op
                then s\<lparr>cond_mul := c, waddr_mul := d, m_ws := (f \<noteq> REG_B)\<rparr>
                else s\<lparr>cond_add := c, waddr_add := d, m_ws := (f \<noteq> REG_A)\<rparr>)\<lparr>m_sf := fl\<rparr>))
             \<lparr>mulOp := (if isMul op then vc4_encodeMulOp op else 0),
              addOp := (if isMul op then 0 else vc4_encodeAddOp op)\<rparr>)"
  using assms by (simp add: encode_def Let_def)

section \<open>The destination mapping\<close>

text \<open>
  C7. For an accumulator used as a destination (index 0 to 5, the range the assertion of
  \<^verbatim>\<open>case ACC\<close> admits), \<^verbatim>\<open>encodeDestReg\<close> returns the address 32 + index. For index 5
  the bank is \<open>REG_B\<close>; for every other index it is the default bank \<^verbatim>\<open>AorB\<close>, which for
  an accumulator is \<open>REG_A\<close>.
\<close>

theorem encodeDestReg_ACC:
  assumes "0 \<le> i" "i \<le> 5"
  shows "encodeDestReg H (Reg ACC i) = Inr (word_of_int (32 + i), if i = 5 then REG_B else REG_A)
       \<and> uint (word_of_int (32 + i) :: u32) = 32 + i"
proof -
  have "uint (word_of_int (32 + i) :: u32) = 32 + i"
    using assms by (intro uint_word_of_int_u32) simp_all
  then show ?thesis using assms by (simp add: encodeDestReg_def)
qed

theorem encodeDestReg_ACC_witness:
  "(0::int) \<le> 5 \<and> (5::int) \<le> 5 \<and> encodeDestReg H0 (Reg ACC 5) = Inr (37, REG_B)
   \<and> (0::int) \<le> 2 \<and> (2::int) \<le> 5 \<and> encodeDestReg H0 (Reg ACC 2) = Inr (34, REG_A)"
  using encodeDestReg_ACC [of 5 H0] encodeDestReg_ACC [of 2 H0] by simp

text \<open>
  C1. The claim: a destination register with tag \<open>SPECIAL\<close> whose id is none of the
  eleven that \<^verbatim>\<open>encodeDestReg\<close> enumerates makes the mapping fail. The code does not fail:
  for every such register it returns the write address 39 and the bank \<open>REG_A\<close>, the result
  of \<^verbatim>\<open>case NONE\<close>, which the inner \<^verbatim>\<open>switch\<close> falls into.
\<close>

theorem encodeDestReg_SPECIAL_unlisted:
  assumes "tag r = SPECIAL"
    and "regId r \<notin> special_id H ` {SPECIAL_RD_SETUP, SPECIAL_WR_SETUP, SPECIAL_DMA_LD_ADDR,
           SPECIAL_DMA_ST_ADDR, SPECIAL_VPM_WRITE, SPECIAL_HOST_INT, SPECIAL_TMU0_S,
           SPECIAL_SFU_RECIP, SPECIAL_SFU_RECIPSQRT, SPECIAL_SFU_EXP, SPECIAL_SFU_LOG}"
  shows "encodeDestReg H r = Inr (39, REG_A)"
  using assms by (simp add: encodeDestReg_def)

theorem encodeDestReg_SPECIAL_unlisted_witness:
  "encodeDestReg H0 (Reg SPECIAL (Special_enum SPECIAL_UNIFORM)) = Inr (39, REG_A)"
  using encodeDestReg_SPECIAL_unlisted [of "Reg SPECIAL (Special_enum SPECIAL_UNIFORM)" H0]
  by (simp add: H0_def)

section \<open>The source mapping\<close>

text \<open>
  C3, as stated, fails: the claim gives 39 as the read address of an accumulator; for
  accumulator 2 read through bank A the code returns the address 0 with the mux 2.
\<close>

theorem encodeSrcReg_ACC_counterexample:
  "encodeSrcReg H0 (Reg ACC 2) REG_A = Inr (0, 2)
   \<and> encodeSrcReg H0 (Reg ACC 2) REG_A \<noteq> Inr (39, 2)"
  by (simp add: encodeSrcReg_def)

text \<open>
  C3, amended. For an accumulator with index 0 to 4, read through either bank,
  \<^verbatim>\<open>encodeSrcReg\<close> returns the mux equal to the index and the read address 0, the value of
  its constant \<^verbatim>\<open>NO_REGFILE_INDEX\<close>.
\<close>

theorem encodeSrcReg_ACC:
  assumes "0 \<le> i" "i \<le> 4" "file = REG_A \<or> file = REG_B"
  shows "encodeSrcReg H (Reg ACC i) file = Inr (0, word_of_int i)
       \<and> uint (word_of_int i :: u32) = i"
proof -
  have "uint (word_of_int i :: u32) = i"
    using assms by (intro uint_word_of_int_u32) simp_all
  then show ?thesis using assms by (auto simp add: encodeSrcReg_def)
qed

theorem encodeSrcReg_ACC_witness:
  "(0::int) \<le> 4 \<and> (4::int) \<le> 4 \<and> (REG_B = REG_A \<or> REG_B = REG_B)
   \<and> encodeSrcReg H0 (Reg ACC 4) REG_B = Inr (0, 4)"
  using encodeSrcReg_ACC [of 4 REG_B H0] by simp

section \<open>The operands of an ALU instruction\<close>

text \<open>
  C5. Let the register \<open>r\<close> have a fixed bank, and let the source mapping resolve it in
  that bank to the address \<open>addr\<close> and the mux \<open>mux\<close>. A non-rotate ALU instruction with
  both sources \<open>r\<close>, whose destination resolves, is encoded with the read address of
  \<open>r\<close>'s bank equal to \<open>addr\<close>, the read address of the other bank equal to 39, and
  both mux fields equal to \<open>mux\<close>.
\<close>

theorem encode_same_register:
  assumes "\<not> isRot op" "encodeDestReg H dest = Inr (d, f)"
    and "regfile H r = REG_A \<or> regfile H r = REG_B"
    and "tag r \<noteq> NONE"
    and "encodeSrcReg H r (regfile H r) = Inr (addr, mux)"
  shows "map_sum id operands
           (encode H (InstrTag_ALU op dest (RegR r) (RegR r) c fl) s)
         = Inr (if regfile H r = REG_A then (addr, 39, mux, mux) else (39, addr, mux, mux))"
  using assms(3,4,5) by (auto simp add: encode_ALU_plain [OF assms(1,2)] operands_def)

theorem encode_same_register_witness:
  "map_sum id operands
     (encode H0 (InstrTag_ALU A_ADD (Reg ACC 1) (RegR (Reg REG_B 5)) (RegR (Reg REG_B 5)) 1 False) s0)
   = Inr (39, 5, 7, 7)
   \<and> map_sum id operands
     (encode H0 (InstrTag_ALU A_ADD (Reg ACC 1) (RegR (Reg REG_A 3)) (RegR (Reg REG_A 3)) 1 False) s0)
   = Inr (3, 39, 6, 6)"
  using encode_same_register [of A_ADD H0 "Reg ACC 1" 33 REG_A "Reg REG_B 5" 5 7 1 False s0]
        encode_same_register [of A_ADD H0 "Reg ACC 1" 33 REG_A "Reg REG_A 3" 3 6 1 False s0]
  by (simp add: A_ADD_def H0_def bank_of_def encodeDestReg_def encodeSrcReg_def)

text \<open>
  C6. A non-rotate ALU instruction whose sources are both immediates, and whose destination
  resolves: when the two values are equal, the encoding has read address B equal to the
  value (converted to \<^verbatim>\<open>uint32_t\<close>) and both mux fields equal to 7, the read address A being
  the 0 the local variable starts with; when they differ, the encoding fails in
  \<^verbatim>\<open>assertq\<close>.
\<close>

theorem encode_imm_imm:
  assumes "\<not> isRot op" "encodeDestReg H dest = Inr (d, f)"
  shows "map_sum id operands
           (encode H (InstrTag_ALU op dest (ImmR (SmallImm k1)) (ImmR (SmallImm k2)) c fl) s)
         = (if k1 = k2 then Inr (0, word_of_int k1, 7, 7)
            else Inl (AssertqFailed
                   ''srcA and srcB can not both be immediates with different values''))"
  by (simp add: encode_ALU_plain [OF assms] operands_def)

theorem encode_imm_imm_witness:
  "map_sum id operands
     (encode H0 (InstrTag_ALU A_ADD (Reg ACC 1) (ImmR (SmallImm 5)) (ImmR (SmallImm 5)) 1 False) s0)
   = Inr (0, 5, 7, 7)
   \<and> map_sum id operands
     (encode H0 (InstrTag_ALU A_ADD (Reg ACC 1) (ImmR (SmallImm 1)) (ImmR (SmallImm 2)) 1 False) s0)
   = Inl (AssertqFailed ''srcA and srcB can not both be immediates with different values'')"
  using encode_imm_imm [of A_ADD H0 "Reg ACC 1" 33 REG_A 5 5 1 False s0]
        encode_imm_imm [of A_ADD H0 "Reg ACC 1" 33 REG_A 1 2 1 False s0]
  by (simp add: A_ADD_def encodeDestReg_def)

text \<open>
  C4, as stated, fails: with the immediate 1 as the first source and register 3 of bank A
  as the second, the mux B field is 6, the mux of the register, and not the immediate
  code 7; the code 7 is in the mux A field.
\<close>

theorem encode_imm_first_counterexample:
  "map_sum id operands
     (encode H0 (InstrTag_ALU A_ADD (Reg REG_A 3) (ImmR (SmallImm 1)) (RegR (Reg REG_A 3)) 1 False) s0)
   = Inr (3, 1, 7, 6)
   \<and> map_sum id m_muxb
     (encode H0 (InstrTag_ALU A_ADD (Reg REG_A 3) (ImmR (SmallImm 1)) (RegR (Reg REG_A 3)) 1 False) s0)
   \<noteq> Inr 7"
  by (simp add: encode_def encodeDestReg_def encodeSrcReg_def A_ADD_def operands_def Let_def)

text \<open>
  C4, amended. A non-rotate ALU instruction with one register source and one immediate
  source, whose destination resolves and whose register the source mapping resolves
  through bank A to (\<open>addr\<close>, \<open>mux\<close>): read address A is \<open>addr\<close>, read address B is the
  immediate's value, the mux field of the source position that carries the immediate is 7
  and the mux field of the other position is \<open>mux\<close>.
\<close>

theorem encode_reg_imm:
  assumes "\<not> isRot op" "encodeDestReg H dest = Inr (d, f)"
    and "encodeSrcReg H r REG_A = Inr (addr, mux)"
  shows "map_sum id operands
           (encode H (InstrTag_ALU op dest (RegR r) (ImmR (SmallImm k)) c fl) s)
         = Inr (addr, word_of_int k, mux, 7)
       \<and> map_sum id operands
           (encode H (InstrTag_ALU op dest (ImmR (SmallImm k)) (RegR r) c fl) s)
         = Inr (addr, word_of_int k, 7, mux)"
  using assms(3) by (simp add: encode_ALU_plain [OF assms(1,2)] operands_def)

theorem encode_reg_imm_witness:
  "map_sum id operands
     (encode H0 (InstrTag_ALU A_ADD (Reg REG_A 3) (RegR (Reg ACC 2)) (ImmR (SmallImm 9)) 1 False) s0)
   = Inr (0, 9, 2, 7)
   \<and> map_sum id operands
     (encode H0 (InstrTag_ALU A_ADD (Reg REG_A 3) (ImmR (SmallImm 9)) (RegR (Reg ACC 2)) 1 False) s0)
   = Inr (0, 9, 7, 2)"
  using encode_reg_imm [of A_ADD H0 "Reg REG_A 3" 3 REG_A "Reg ACC 2" 0 2 9 1 False s0]
  by (simp add: A_ADD_def encodeDestReg_def encodeSrcReg_def)

text \<open>
  The register beside an immediate is always read through bank A, so a register of bank B
  in that place ends the encoding in the assertion of \<^verbatim>\<open>encodeSrcReg\<close>.
\<close>

lemma encode_regB_imm_fails:
  assumes "\<not> isRot op" "encodeDestReg H dest = Inr (d, f)" "tag r = REG_B"
  shows "encode H (InstrTag_ALU op dest (RegR r) (ImmR k) c fl) s = Inl AssertFailed"
    and "encode H (InstrTag_ALU op dest (ImmR k) (RegR r) c fl) s = Inl AssertFailed"
  using assms(3) by (simp_all add: encode_ALU_plain [OF assms(1,2)] encodeSrcReg_def)

text \<open>
  C10, as stated, fails: the rotate by accumulator 5 is an ALU instruction whose sources,
  accumulator 0 and accumulator 5, are two different registers without a fixed bank. Its
  encoding succeeds in the rotate branch of \<^verbatim>\<open>encode\<close>, which never calls
  \<^verbatim>\<open>encode_operands\<close>: read address B is 48 and not the address 0 that the source mapping
  gives \<^verbatim>\<open>srcA\<close> through bank B, and read address A and both mux fields keep what the
  record held before (here 9, 5 and 6), the mux A field not being the mux 0 of \<^verbatim>\<open>srcA\<close>.
\<close>

theorem encode_rot_acc5_counterexample:
  "regfile H0 (Reg ACC 0) = NONE \<and> regfile H0 (Reg ACC 5) = NONE \<and> Reg ACC 0 \<noteq> Reg ACC 5
   \<and> encodeSrcReg H0 (Reg ACC 0) REG_B = Inr (0, 0)
   \<and> map_sum id operands
        (encode H0 (InstrTag_ALU M_ROTATE (Reg ACC 1) (RegR (Reg ACC 0)) (RegR (Reg ACC 5)) 1 False)
           (s0\<lparr>m_raddra := 9, m_muxa := 5, m_muxb := 6\<rparr>))
      = Inr (9, 48, 5, 6)"
  by (simp add: encode_def encode_rot_def encodeDestReg_def encodeSrcReg_def M_ROTATE_def
      H0_def bank_of_def s0_def Instr_tag_def operands_def Let_def)

text \<open>
  C10, amended. Two different registers, neither with a fixed bank, as the sources of a
  non-rotate ALU instruction whose destination and sources resolve: the second source is
  read through port A and the first through port B, so read address A is the address of
  \<^verbatim>\<open>srcB\<close> and read address B the address of \<^verbatim>\<open>srcA\<close>, while mux A is the mux of
  \<^verbatim>\<open>srcA\<close> and mux B the mux of \<^verbatim>\<open>srcB\<close>.
\<close>

theorem encode_no_fixed_bank:
  assumes "\<not> isRot op" "encodeDestReg H dest = Inr (d, f)"
    and "regfile H a = NONE" "regfile H b = NONE" "a \<noteq> b"
    and "encodeSrcReg H b REG_A = Inr (addr_b, mux_b)"
    and "encodeSrcReg H a REG_B = Inr (addr_a, mux_a)"
  shows "map_sum id operands
           (encode H (InstrTag_ALU op dest (RegR a) (RegR b) c fl) s)
         = Inr (addr_b, addr_a, mux_a, mux_b)"
  using assms(3-7) by (simp add: encode_ALU_plain [OF assms(1,2)] operands_def)

theorem encode_no_fixed_bank_witness:
  "map_sum id operands
     (encode H0 (InstrTag_ALU A_ADD (Reg ACC 1)
        (RegR (Reg SPECIAL (Special_enum SPECIAL_UNIFORM))) (RegR (Reg ACC 2)) 1 False) s0)
   = Inr (0, 32, 7, 2)
   \<and> map_sum id operands
     (encode H0 (InstrTag_ALU A_ADD (Reg ACC 1) (RegR (Reg ACC 3)) (RegR (Reg ACC 2)) 1 False) s0)
   = Inr (0, 0, 3, 2)"
  using encode_no_fixed_bank [of A_ADD H0 "Reg ACC 1" 33 REG_A
          "Reg SPECIAL (Special_enum SPECIAL_UNIFORM)" "Reg ACC 2" 0 2 32 7 1 False s0]
        encode_no_fixed_bank [of A_ADD H0 "Reg ACC 1" 33 REG_A
          "Reg ACC 3" "Reg ACC 2" 0 2 0 3 1 False s0]
  by (simp add: A_ADD_def H0_def bank_of_def encodeDestReg_def encodeSrcReg_def)

text \<open>
  C8. An add (an operation of the add pipe that is no rotate) of register 3 of bank A and
  register 5 of bank B into register 3 of bank A, these registers living in the banks
  their tags name: read address A is 3, read address B is 5, mux A is 6, mux B is 7 and
  the write address of the add pipe is 3, whatever the condition code.
\<close>

theorem encode_add_ra3_rb5:
  assumes "\<not> isMul op" "\<not> isRot op"
    and "regfile H (Reg REG_A 3) = REG_A" "regfile H (Reg REG_B 5) = REG_B"
  shows "map_sum id (\<lambda>s'. (operands s', waddr_add s'))
           (encode H (InstrTag_ALU op (Reg REG_A 3) (RegR (Reg REG_A 3)) (RegR (Reg REG_B 5)) c fl) s)
         = Inr ((3, 5, 6, 7), 3)"
proof -
  have d: "encodeDestReg H (Reg REG_A 3) = Inr (3, REG_A)"
    by (simp add: encodeDestReg_def)
  have a: "encodeSrcReg H (Reg REG_A 3) REG_A = Inr (3, 6)"
    by (simp add: encodeSrcReg_def)
  have b: "encodeSrcReg H (Reg REG_B 5) REG_B = Inr (5, 7)"
    by (simp add: encodeSrcReg_def)
  show ?thesis
    using assms(1,3,4) a b
    by (simp add: encode_ALU_plain [OF assms(2) d] operands_def Instr_tag_def)
qed

theorem encode_add_ra3_rb5_witness:
  "map_sum id (\<lambda>s'. (operands s', waddr_add s'))
     (encode H0 (InstrTag_ALU A_ADD (Reg REG_A 3) (RegR (Reg REG_A 3)) (RegR (Reg REG_B 5)) 1 False) s0)
   = Inr ((3, 5, 6, 7), 3)"
  using encode_add_ra3_rb5 [of A_ADD H0 1 False s0]
  by (simp add: A_ADD_def H0_def bank_of_def)

section \<open>Rotate and branch\<close>

text \<open>
  C2. The claim: a rotate whose second source is an immediate outside 1 to 15 fails. The
  code never fails on the immediate: the asserted condition is a disjunction that every
  value satisfies, so for every value \<open>k\<close> the encoding succeeds with read address B equal
  to 48 + \<open>k\<close> (in \<^verbatim>\<open>uint32_t\<close>). The value 16 gives 64 and the value 0 gives 48.
\<close>

theorem encode_rot_imm_any:
  assumes "isRot op" "encodeDestReg H dest = Inr (d, f)"
  shows "map_sum id m_raddrb
           (encode H (InstrTag_ALU op dest (RegR (Reg ACC 0)) (ImmR (SmallImm k)) c fl) s)
         = Inr (48 + word_of_int k)"
  using assms rot_assert_holds [of "word_of_int k"]
  by (simp add: encode_def encode_rot_def Let_def)

theorem encode_rot_imm_any_witness:
  "map_sum id m_raddrb
     (encode H0 (InstrTag_ALU M_ROTATE (Reg ACC 1) (RegR (Reg ACC 0)) (ImmR (SmallImm 16)) 1 False) s0)
   = Inr 64
   \<and> map_sum id m_raddrb
     (encode H0 (InstrTag_ALU M_ROTATE (Reg ACC 1) (RegR (Reg ACC 0)) (ImmR (SmallImm 0)) 1 False) s0)
   = Inr 48"
  using encode_rot_imm_any [of M_ROTATE H0 "Reg ACC 1" 33 REG_A 16 1 False s0]
        encode_rot_imm_any [of M_ROTATE H0 "Reg ACC 1" 33 REG_A 0 1 False s0]
  by (simp add: M_ROTATE_def encodeDestReg_def)

text \<open>
  With the value 16 the read address B is 64, which does not fit the six bits that
  \<^verbatim>\<open>low()\<close> gives it: the word is the one of read address A = 1 and read address B = 0.
\<close>

lemma rot_imm_16_low:
  "map_sum id low
     (encode H0 (InstrTag_ALU M_ROTATE (Reg ACC 1) (RegR (Reg ACC 0)) (ImmR (SmallImm 16)) 1 False) s0)
   = Inr 0x80040000"
  by (simp add: encode_def encode_rot_def encodeDestReg_def M_ROTATE_def H0_def s0_def
      Instr_tag_def low_def Let_def)

text \<open>
  C9. A branch whose target uses a register offset is rejected with the message
  "Register offset not supported". For a target with the literal offset \<open>k\<close> the immediate
  field is 8 \<open>k\<close>: the field is the \<^verbatim>\<open>uint32_t\<close> conversion of 8 \<open>k\<close>, and read as a two's
  complement number it is 8 \<open>k\<close> for every offset whose product with 8 fits an \<^verbatim>\<open>int\<close>.
  The offset 2 gives 16.
\<close>

theorem encode_BR:
  assumes "- (2 ^ 28) \<le> immOffset t" "immOffset t < 2 ^ 28"
  shows "map_sum id (\<lambda>s'. (li_imm s', sint (li_imm s'))) (encode H (InstrTag_BR c t) s)
         = (if useRegOffset t then Inl (AssertqFailed ''Register offset not supported'')
            else Inr (word_of_int (8 * immOffset t), 8 * immOffset t))"
proof -
  have "sint (word_of_int (8 * immOffset t) :: u32) = 8 * immOffset t"
    using assms by (intro sint_word_of_int_u32) simp_all
  then show ?thesis by (simp add: encode_def)
qed

theorem encode_BR_witness:
  "map_sum id (\<lambda>s'. (li_imm s', sint (li_imm s')))
     (encode H0 (InstrTag_BR 15 \<lparr>relative = False, useRegOffset = False, immOffset = 2\<rparr>) s0)
   = Inr (16, 16)
   \<and> map_sum id (\<lambda>s'. (li_imm s', sint (li_imm s')))
     (encode H0 (InstrTag_BR 15 \<lparr>relative = True, useRegOffset = True, immOffset = 2\<rparr>) s0)
   = Inl (AssertqFailed ''Register offset not supported'')"
  using encode_BR [of "\<lparr>relative = False, useRegOffset = False, immOffset = 2\<rparr>" H0 15 s0]
        encode_BR [of "\<lparr>relative = True, useRegOffset = True, immOffset = 2\<rparr>" H0 15 s0]
  by simp

end
